theory Spec2Isabelle
  imports Complex_Main "HOL-Library.Word" "HOL-Library.Sublist"
begin

section \<open>Strings\<close>

text \<open>
  An ECMAScript string is a sequence of 16-bit code units.  The program's texts need
  code units beyond Latin-1 (the two triangles of the trend indicator), so a string
  is a list of 16-bit words; \<open>str\<close> embeds an ASCII literal.
\<close>

type_synonym codeunit = "16 word"
type_synonym jsstring = "codeunit list"

definition str :: "string \<Rightarrow> jsstring" where
  "str s = map of_char s"

definition centSign :: codeunit where
  "centSign = 0xA2"

definition upTriangle :: codeunit where
  "upTriangle = 0x25B2"

definition downTriangle :: codeunit where
  "downTriangle = 0x25BC"

section \<open>Numbers\<close>

text \<open>
  An ECMAScript Number is an IEEE 754 binary64 value.  A finite value is kept as
  the rational it denotes; every operation that produces a finite value rounds
  to the nearest binary64 value, ties to even (\<open>round64\<close>).  The two zeros are
  identified: the operations the program applies to a number (\<open>isNaN\<close>, \<open><\<close>,
  \<open>>\<close>, \<open>>=\<close>, division by 100 and \<open>toFixed\<close>) do not tell them apart.
\<close>

datatype number = NaN | PosInfinity | NegInfinity | Fin rat

fun bits :: "nat \<Rightarrow> nat" where
  "bits n = (if n = 0 then 0 else Suc (bits (n div 2)))"

declare bits.simps [simp del]

definition pow2 :: "int \<Rightarrow> rat" where
  "pow2 e = (if 0 \<le> e then 2 ^ nat e else 1 / 2 ^ nat (- e))"

definition pow10 :: "int \<Rightarrow> rat" where
  "pow10 e = (if 0 \<le> e then 10 ^ nat e else 1 / 10 ^ nat (- e))"

definition floorLog2 :: "rat \<Rightarrow> int" where
  \<comment> \<open>for \<open>0 < a\<close>: the \<open>e\<close> with \<open>2 ^ e \<le> a < 2 ^ (e + 1)\<close>\<close>
  "floorLog2 a =
     (if 1 \<le> a then int (bits (nat \<lfloor>a\<rfloor>)) - 1
      else - int (bits (nat (\<lceil>1 / a\<rceil> - 1))))"

definition tieToEven :: "int \<Rightarrow> rat \<Rightarrow> int" where
  \<comment> \<open>\<open>f\<close> or \<open>f + 1\<close>, for a fractional part \<open>r\<close> above \<open>f\<close>\<close>
  "tieToEven f r =
     (if r < 1 / 2 then f
      else if 1 / 2 < r then f + 1
      else if even f then f else f + 1)"

definition roundHalfEven :: "rat \<Rightarrow> int" where
  "roundHalfEven q = tieToEven \<lfloor>q\<rfloor> (q - of_int \<lfloor>q\<rfloor>)"

definition withSign :: "bool \<Rightarrow> rat \<Rightarrow> rat" where
  "withSign neg v = (if neg then - v else v)"

definition overflow :: "bool \<Rightarrow> rat \<Rightarrow> number" where
  \<comment> \<open>a rounded magnitude that has left the exponent range is an infinity\<close>
  "overflow neg v =
     (if pow2 1024 \<le> v then (if neg then NegInfinity else PosInfinity)
      else Fin (withSign neg v))"

definition roundToUnit :: "rat \<Rightarrow> rat \<Rightarrow> number" where
  \<comment> \<open>\<open>q\<close> rounded to the nearest multiple of \<open>u\<close>, ties to the even multiple\<close>
  "roundToUnit q u = overflow (q < 0) (of_int (roundHalfEven (\<bar>q\<bar> / u)) * u)"

definition round64 :: "rat \<Rightarrow> number" where
  \<comment> \<open>the Number value for a real: 53 bits of precision, exponents -1022 to 1023,
      gradual underflow, overflow to an infinity\<close>
  "round64 q =
     (if q = 0 then Fin 0
      else roundToUnit q (pow2 (max (floorLog2 \<bar>q\<bar>) (- 1022) - 52)))"

definition isNaN :: "number \<Rightarrow> bool" where
  "isNaN x = (x = NaN)"

fun lt :: "number \<Rightarrow> number \<Rightarrow> bool" where
  \<comment> \<open>\<open>a < b\<close>; false as soon as an operand is NaN\<close>
  "lt NaN b = False"
| "lt a NaN = False"
| "lt PosInfinity b = False"
| "lt NegInfinity b = (b \<noteq> NegInfinity)"
| "lt (Fin x) PosInfinity = True"
| "lt (Fin x) NegInfinity = False"
| "lt (Fin x) (Fin y) = (x < y)"

definition gt :: "number \<Rightarrow> number \<Rightarrow> bool" where
  "gt a b = lt b a"

definition ge :: "number \<Rightarrow> number \<Rightarrow> bool" where
  \<comment> \<open>\<open>a >= b\<close> is the negation of \<open>a < b\<close>, except that NaN makes it false\<close>
  "ge a b = (a \<noteq> NaN \<and> b \<noteq> NaN \<and> \<not> lt a b)"

definition divideBy :: "number \<Rightarrow> rat \<Rightarrow> number" where
  \<comment> \<open>\<open>x / d\<close> for a finite divisor \<open>0 < d\<close>\<close>
  "divideBy x d = (case x of Fin c \<Rightarrow> round64 (c / d) | other \<Rightarrow> other)"

subsection \<open>parseFloat\<close>

definition isWhiteSpace :: "codeunit \<Rightarrow> bool" where
  \<comment> \<open>WhiteSpace and LineTerminator, the code units that the trimming removes\<close>
  "isWhiteSpace c =
     (c \<in> {0x09, 0x0A, 0x0B, 0x0C, 0x0D, 0x20, 0xA0, 0x1680, 0x2028, 0x2029,
            0x202F, 0x205F, 0x3000, 0xFEFF}
      \<or> (0x2000 \<le> c \<and> c \<le> 0x200A))"

definition isDigit :: "codeunit \<Rightarrow> bool" where
  "isDigit c = (0x30 \<le> c \<and> c \<le> 0x39)"

definition digitsValue :: "jsstring \<Rightarrow> nat" where
  "digitsValue ds = foldl (\<lambda>a c. 10 * a + (unat c - 48)) 0 ds"

definition signedDigits :: "bool \<Rightarrow> jsstring \<Rightarrow> int option" where
  "signedDigits neg ds =
     (if ds = [] then None
      else Some (if neg then - int (digitsValue ds) else int (digitsValue ds)))"

definition signedInteger :: "jsstring \<Rightarrow> int option" where
  \<comment> \<open>the value of the SignedInteger at the start of the string, if there is one\<close>
  "signedInteger s =
     (if s \<noteq> [] \<and> hd s = 0x2D then signedDigits True (takeWhile isDigit (tl s))
      else if s \<noteq> [] \<and> hd s = 0x2B then signedDigits False (takeWhile isDigit (tl s))
      else signedDigits False (takeWhile isDigit s))"

definition exponentPart :: "jsstring \<Rightarrow> int" where
  \<comment> \<open>the value of the ExponentPart at the start of the string; 0 when the string
      does not start with one (an \<open>e\<close> with no digits after it is not consumed)\<close>
  "exponentPart s =
     (if s \<noteq> [] \<and> (hd s = 0x65 \<or> hd s = 0x45)
      then (case signedInteger (tl s) of None \<Rightarrow> 0 | Some e \<Rightarrow> e)
      else 0)"

definition decimalValue :: "bool \<Rightarrow> jsstring \<Rightarrow> jsstring \<Rightarrow> jsstring \<Rightarrow> number" where
  \<comment> \<open>integer digits \<open>ip\<close>, fraction digits \<open>fp\<close> and the text \<open>rest\<close> after them:
      no digit at all is no numeral; otherwise the numeral's value, rounded\<close>
  "decimalValue neg ip fp rest =
     (if ip = [] \<and> fp = [] then NaN
      else round64 (withSign neg
             (of_nat (digitsValue (ip @ fp))
                * pow10 (exponentPart rest - int (length fp)))))"

definition afterInteger :: "bool \<Rightarrow> jsstring \<Rightarrow> jsstring \<Rightarrow> number" where
  \<comment> \<open>a point after the integer digits opens the fraction digits\<close>
  "afterInteger neg ip r =
     (if r \<noteq> [] \<and> hd r = 0x2E
      then decimalValue neg ip (takeWhile isDigit (tl r)) (dropWhile isDigit (tl r))
      else decimalValue neg ip [] r)"

definition unsignedLiteral :: "bool \<Rightarrow> jsstring \<Rightarrow> number" where
  "unsignedLiteral neg u =
     (if prefix (str ''Infinity'') u then (if neg then NegInfinity else PosInfinity)
      else afterInteger neg (takeWhile isDigit u) (dropWhile isDigit u))"

definition decimalLiteral :: "jsstring \<Rightarrow> number" where
  \<comment> \<open>the sign, then the unsigned literal\<close>
  "decimalLiteral t =
     (if t \<noteq> [] \<and> hd t = 0x2D then unsignedLiteral True (tl t)
      else if t \<noteq> [] \<and> hd t = 0x2B then unsignedLiteral False (tl t)
      else unsignedLiteral False t)"

definition parseFloat :: "jsstring \<Rightarrow> number" where
  \<comment> \<open>the longest prefix of the trimmed string that is a StrDecimalLiteral, read as
      a decimal numeral and rounded; NaN when there is no such prefix.  The numeral is
      rounded exactly, also beyond 20 significant digits, where ECMAScript lets an
      implementation round the 20th digit first.\<close>
  "parseFloat inputString = decimalLiteral (dropWhile isWhiteSpace inputString)"

subsection \<open>Number.prototype.toFixed\<close>

fun decimal :: "nat \<Rightarrow> jsstring" where
  "decimal n =
     (if n < 10 then [of_nat (48 + n)]
      else decimal (n div 10) @ [of_nat (48 + n mod 10)])"

declare decimal.simps [simp del]

definition nearer :: "rat \<Rightarrow> nat \<Rightarrow> bool \<Rightarrow> bool \<Rightarrow> nat option" where
  \<comment> \<open>of \<open>lo\<close> and \<open>lo + 1\<close>, those that read back are \<open>okLo\<close> and \<open>okHi\<close>; the one
      nearer to \<open>y\<close> is taken, the even one on a tie\<close>
  "nearer y lo okLo okHi =
     (if okLo \<and> okHi
      then (if y - of_nat lo < of_nat (lo + 1) - y
               \<or> (y - of_nat lo = of_nat (lo + 1) - y \<and> even lo)
            then Some lo else Some (lo + 1))
      else if okLo then Some lo
      else if okHi then Some (lo + 1)
      else None)"

definition closest :: "rat \<Rightarrow> rat \<Rightarrow> nat \<Rightarrow> nat option" where
  \<comment> \<open>among the integers \<open>s\<close> next to \<open>x / p\<close> for which \<open>s * p\<close> rounds to \<open>x\<close>,
      the one nearest to \<open>x / p\<close>\<close>
  "closest x p lo =
     nearer (x / p) lo (round64 (of_nat lo * p) = Fin x)
       (round64 (of_nat (lo + 1) * p) = Fin x)"

function shortest :: "rat \<Rightarrow> nat \<Rightarrow> nat \<Rightarrow> nat \<times> nat" where
  \<comment> \<open>the least number of significant digits, from \<open>k\<close> on, and the digits \<open>s\<close>,
      such that \<open>s * 10 ^ (n - k)\<close> rounds to \<open>x\<close>; \<open>n\<close> is the number of digits of
      the integer part of \<open>x\<close>\<close>
  "shortest x n k =
     (if n \<le> k then (n, nat \<lfloor>x\<rfloor>)
      else (case closest x (10 ^ (n - k)) (nat \<lfloor>x / 10 ^ (n - k)\<rfloor>) of
              Some s \<Rightarrow> (k, s)
            | None \<Rightarrow> shortest x n (Suc k)))"
  by pat_completeness auto
termination
  by (relation "measure (\<lambda>(x, n, k). n - k)") auto

declare shortest.simps [simp del]

definition scientific :: "jsstring \<Rightarrow> nat \<Rightarrow> jsstring" where
  \<comment> \<open>digits \<open>ds\<close> and exponent \<open>e\<close> as \<open>d.ddde+e\<close>\<close>
  "scientific ds e =
     (if length ds = 1 then ds else take 1 ds @ str ''.'' @ drop 1 ds)
       @ str ''e+'' @ decimal e"

definition normalised :: "nat \<Rightarrow> nat \<times> nat \<Rightarrow> jsstring" where
  \<comment> \<open>\<open>k\<close> digits \<open>s\<close> of a number of \<open>n\<close> integer digits; \<open>s = 10 ^ k\<close> is one
      digit more\<close>
  "normalised n ks =
     (case ks of (k, s) \<Rightarrow>
        if s = 10 ^ k then scientific (decimal (10 ^ (k - 1))) n
        else scientific (decimal s) (n - 1))"

definition toStringExp :: "rat \<Rightarrow> jsstring" where
  \<comment> \<open>Number::toString in radix 10 for a finite \<open>10 ^ 21 \<le> x\<close>: the shortest digits
      that read back as \<open>x\<close>, in exponent notation\<close>
  "toStringExp x =
     normalised (length (decimal (nat \<lfloor>x\<rfloor>)))
       (shortest x (length (decimal (nat \<lfloor>x\<rfloor>))) 1)"

definition pointed :: "jsstring \<Rightarrow> nat \<Rightarrow> jsstring" where
  \<comment> \<open>the digits \<open>m\<close> with a point before the last \<open>f\<close> of them\<close>
  "pointed m f = take (length m - f) m @ str ''.'' @ drop (length m - f) m"

definition padded :: "jsstring \<Rightarrow> nat \<Rightarrow> jsstring" where
  \<comment> \<open>zeros in front, up to \<open>f + 1\<close> digits\<close>
  "padded m f = (if length m \<le> f then replicate (f + 1 - length m) 0x30 @ m else m)"

definition fixedDigits :: "rat \<Rightarrow> nat \<Rightarrow> jsstring" where
  \<comment> \<open>for \<open>0 \<le> a < 10 ^ 21\<close>: the integer \<open>n\<close> with \<open>n / 10 ^ f\<close> nearest to \<open>a\<close>, the
      larger one of two, written with \<open>f\<close> digits after the point\<close>
  "fixedDigits a f =
     (if f \<noteq> 0 then pointed (padded (decimal (nat \<lfloor>a * 10 ^ f + 1 / 2\<rfloor>)) f) f
      else decimal (nat \<lfloor>a * 10 ^ f + 1 / 2\<rfloor>))"

definition toFixed :: "number \<Rightarrow> nat \<Rightarrow> jsstring" where
  \<comment> \<open>\<open>x.toFixed(f)\<close> for \<open>f \<le> 100\<close> (the program passes 1 and 2)\<close>
  "toFixed x f =
     (case x of
        NaN \<Rightarrow> str ''NaN''
      | PosInfinity \<Rightarrow> str ''Infinity''
      | NegInfinity \<Rightarrow> str ''-Infinity''
      | Fin q \<Rightarrow>
          (if q < 0 then str ''-'' else [])
            @ (if 10 ^ 21 \<le> \<bar>q\<bar> then toStringExp \<bar>q\<bar> else fixedDigits \<bar>q\<bar> f))"

section \<open>URI encoding\<close>

definition uriUnreserved :: "codeunit \<Rightarrow> bool" where
  \<comment> \<open>letters, digits and \<open>- _ . ! ~ * ' ( )\<close> are copied as they are\<close>
  "uriUnreserved c =
     ((0x41 \<le> c \<and> c \<le> 0x5A) \<or> (0x61 \<le> c \<and> c \<le> 0x7A) \<or> (0x30 \<le> c \<and> c \<le> 0x39)
      \<or> c \<in> {0x2D, 0x5F, 0x2E, 0x21, 0x7E, 0x2A, 0x27, 0x28, 0x29})"

definition hexDigit :: "nat \<Rightarrow> codeunit" where
  "hexDigit d = (if d < 10 then of_nat (48 + d) else of_nat (55 + d))"

definition escapeOctet :: "nat \<Rightarrow> jsstring" where
  "escapeOctet b = [0x25, hexDigit (b div 16), hexDigit (b mod 16)]"

definition utf8 :: "nat \<Rightarrow> nat list" where
  \<comment> \<open>the octets of a code point\<close>
  "utf8 cp =
     (if cp < 0x80 then [cp]
      else if cp < 0x800 then [0xC0 + cp div 64, 0x80 + cp mod 64]
      else if cp < 0x10000
      then [0xE0 + cp div 4096, 0x80 + cp div 64 mod 64, 0x80 + cp mod 64]
      else [0xF0 + cp div 262144, 0x80 + cp div 4096 mod 64, 0x80 + cp div 64 mod 64,
            0x80 + cp mod 64])"

definition escapeCodePoint :: "nat \<Rightarrow> jsstring" where
  "escapeCodePoint cp = concat (map escapeOctet (utf8 cp))"

definition leadSurrogate :: "codeunit \<Rightarrow> bool" where
  "leadSurrogate c = (0xD800 \<le> c \<and> c \<le> 0xDBFF)"

definition trailSurrogate :: "codeunit \<Rightarrow> bool" where
  "trailSurrogate c = (0xDC00 \<le> c \<and> c \<le> 0xDFFF)"

fun encodeURIComponent :: "jsstring \<Rightarrow> jsstring option" where
  \<comment> \<open>\<open>None\<close>: a surrogate without its partner, for which the call throws a URIError\<close>
  "encodeURIComponent [] = Some []"
| "encodeURIComponent (c # cs) =
     (if uriUnreserved c then map_option ((#) c) (encodeURIComponent cs)
      else if trailSurrogate c then None
      else if leadSurrogate c
      then (case cs of
              [] \<Rightarrow> None
            | d # ds \<Rightarrow>
                if trailSurrogate d
                then map_option
                       ((@) (escapeCodePoint
                               ((unat c - 0xD800) * 0x400 + (unat d - 0xDC00) + 0x10000)))
                       (encodeURIComponent ds)
                else None)
      else map_option ((@) (escapeCodePoint (unat c))) (encodeURIComponent cs))"

section \<open>The pricing action\<close>

datatype trend = Up | Down | Neutral

text \<open>
  An entry of a feed, as the interface \<open>ComedPriceData\<close> declares it.  The action
  reads \<open>price\<close> through \<open>?.\<close> and \<open>||\<close>; \<open>None\<close> is an entry that carries no price.
\<close>

record ComedPriceData =
  millisUTC :: jsstring
  price :: "jsstring option"

text \<open>
  What \<open>fetch\<close> resolves to: the \<open>ok\<close> flag and the result of \<open>json()\<close>, \<open>None\<close> when
  the body is not a feed and the call rejects or the first index throws.  A fetch that
  rejects is no response at all.
\<close>

record Response =
  ok :: bool
  json :: "ComedPriceData list option"

definition trim :: "jsstring \<Rightarrow> jsstring" where
  "trim s = rev (dropWhile isWhiteSpace (rev (dropWhile isWhiteSpace s)))"

definition nl :: jsstring where
  "nl = [0x0A]"

definition tab :: jsstring where
  "tab = [0x09]"

subsection \<open>calculateTrend\<close>

definition compareTrend :: "number \<Rightarrow> number \<Rightarrow> trend" where
  "compareTrend prev current =
     (if isNaN prev \<or> isNaN current then Neutral
      else if gt current prev then Up
      else if lt current prev then Down
      else Neutral)"

fun calculateTrend :: "jsstring option \<Rightarrow> jsstring \<Rightarrow> trend" where
  "calculateTrend None currentPrice = Neutral"
| "calculateTrend (Some previousPrice) currentPrice =
     (if previousPrice = [] \<or> previousPrice = str ''N/A'' \<or> currentPrice = str ''N/A''
      then Neutral
      else compareTrend (parseFloat previousPrice) (parseFloat currentPrice))"

subsection \<open>formatPrice\<close>

definition formatPrice :: "jsstring \<Rightarrow> jsstring" where
  "formatPrice priceStr =
     (if priceStr = str ''N/A'' then str ''N/A''
      else
        let cents = parseFloat priceStr
        in if isNaN cents then str ''N/A''
           else
             let dollars = divideBy cents 100
             in if ge dollars (Fin 1) then str ''$'' @ toFixed dollars 2
                else toFixed cents 1 @ [centSign])"

subsection \<open>generatePricingSVG and generateErrorSVG\<close>

definition isHighPrice :: "jsstring \<Rightarrow> bool" where
  "isHighPrice rawFiveMinPrice = gt (parseFloat rawFiveMinPrice) (Fin 10)"

definition primaryColor :: "jsstring \<Rightarrow> jsstring" where
  "primaryColor rawFiveMinPrice =
     (if isHighPrice rawFiveMinPrice then str ''#ff4444'' else str ''#44ff44'')"

definition secondaryColor :: jsstring where
  "secondaryColor = str ''#cccccc''"

definition backgroundColor :: jsstring where
  "backgroundColor = str ''#000000''"

definition trendColor :: "trend \<Rightarrow> jsstring" where
  "trendColor t =
     (if t = Up then str ''#ff4444'' else if t = Down then str ''#44ff44''
      else str ''#888888'')"

definition trendSymbol :: "trend \<Rightarrow> jsstring" where
  "trendSymbol t = (if t = Up then [upTriangle] else if t = Down then [downTriangle] else [])"

definition trendText :: "trend \<Rightarrow> jsstring" where
  \<open>trendText t =
     (if t \<noteq> Neutral
      then str ''<text x="60" y="28" text-anchor="middle" fill="'' @ trendColor t
             @ str ''" font-family="Arial, sans-serif" font-size="14">'' @ trendSymbol t
             @ str ''</text>''
      else [])\<close>

definition pricingTemplate :: "jsstring \<Rightarrow> jsstring \<Rightarrow> jsstring \<Rightarrow> trend \<Rightarrow> jsstring" where
  \<comment> \<open>the template literal, line by line\<close>
  \<open>pricingTemplate fiveMinPrice hourlyPrice rawFiveMinPrice t =
      (nl
       @ str ''<svg xmlns="http://www.w3.org/2000/svg" width="72" height="72" viewBox="0 0 72 72">'' @ nl
       @ tab @ str ''<rect width="72" height="72" fill="'' @ backgroundColor @ str ''" rx="8"/>'' @ nl
       @ tab @ nl
       @ nl
       @ tab @ str ''<!-- 5-minute price (large, prominent) -->'' @ nl
       @ tab @ str ''<text x="26" y="28" text-anchor="middle" fill="''
           @ primaryColor rawFiveMinPrice @ str ''" '' @ nl
       @ tab @ tab @ str ''  font-family="Arial, sans-serif" font-size="18" font-weight="bold">'' @ nl
       @ tab @ tab @ fiveMinPrice @ nl
       @ tab @ str ''</text>'' @ nl
       @ nl
       @ str ''  '' @ trendText t @ nl
       @ nl
       @ tab @ str ''<!-- Hourly average (smaller) -->'' @ nl
       @ tab @ str ''<text x="36" y="54" text-anchor="middle" fill="'' @ secondaryColor
           @ str ''" '' @ nl
       @ tab @ tab @ str ''  font-family="Arial, sans-serif" font-size="14">'' @ nl
       @ tab @ tab @ hourlyPrice @ str '' avg'' @ nl
       @ tab @ str ''</text>'' @ nl
       @ str ''</svg>'')\<close>

definition generatePricingSVG :: "jsstring \<Rightarrow> jsstring \<Rightarrow> jsstring \<Rightarrow> trend \<Rightarrow> jsstring" where
  "generatePricingSVG fiveMinPrice hourlyPrice rawFiveMinPrice t =
     trim (pricingTemplate fiveMinPrice hourlyPrice rawFiveMinPrice t)"

definition errorTemplate :: jsstring where
  \<open>errorTemplate =
      (nl
       @ str ''<svg xmlns="http://www.w3.org/2000/svg" width="72" height="72" viewBox="0 0 72 72">'' @ nl
       @ tab @ str ''<rect width="72" height="72" fill="#000000" rx="8"/>'' @ nl
       @ tab @ str ''<text x="36" y="40" text-anchor="middle" fill="#ff4444" '' @ nl
       @ tab @ tab @ str ''  font-family="Arial, sans-serif" font-size="14" font-weight="bold">'' @ nl
       @ tab @ tab @ str ''ERROR'' @ nl
       @ tab @ str ''</text>'' @ nl
       @ str ''</svg>'')\<close>

definition generateErrorSVG :: jsstring where
  "generateErrorSVG = trim errorTemplate"

subsection \<open>updatePricing\<close>

record Settings =
  fiveMinPrice :: jsstring
  hourlyPrice :: jsstring
  fiveMinFormatted :: jsstring
  hourlyFormatted :: jsstring
  trend :: trend
  lastUpdate :: int

text \<open>
  What a tick does to its surroundings, in order.  The calls to the action
  (\<open>setImage\<close>, \<open>setTitle\<close>, \<open>setSettings\<close>, \<open>setState\<close>) are taken to succeed;
  \<open>Rejected\<close> is an exception that leaves the \<open>catch\<close> block.
\<close>

datatype event =
    ConsoleError
  | SetImage jsstring
  | SetTitle jsstring
  | SetSettings Settings
  | SetState nat
  | Rejected

definition priceAt :: "ComedPriceData list \<Rightarrow> nat \<Rightarrow> jsstring option" where
  \<comment> \<open>\<open>data[i]?.price\<close>\<close>
  "priceAt data i = (if i < length data then price (data ! i) else None)"

definition orNA :: "jsstring option \<Rightarrow> jsstring" where
  \<comment> \<open>\<open>v || "N/A"\<close>: the right operand replaces a falsy left one\<close>
  "orNA v = (case v of None \<Rightarrow> str ''N/A'' | Some p \<Rightarrow> if p = [] then str ''N/A'' else p)"

definition stateOf :: "jsstring \<Rightarrow> nat" where
  \<comment> \<open>\<open>parseFloat(currentFiveMinPrice) > 10 ? 1 : 0\<close>\<close>
  "stateOf currentFiveMinPrice = (if gt (parseFloat currentFiveMinPrice) (Fin 10) then 1 else 0)"

definition dataURI :: "jsstring \<Rightarrow> jsstring option" where
  "dataURI svg = map_option ((@) (str ''data:image/svg+xml,'')) (encodeURIComponent svg)"

definition onError :: "event list" where
  \<comment> \<open>the \<open>catch\<close> block\<close>
  "onError =
     [ConsoleError, SetTitle (str ''Error'')]
       @ (case dataURI generateErrorSVG of Some uri \<Rightarrow> [SetImage uri] | None \<Rightarrow> [Rejected])"

definition currentPrice :: "ComedPriceData list \<Rightarrow> jsstring" where
  \<comment> \<open>\<open>data[0]?.price || "N/A"\<close>, for either feed\<close>
  "currentPrice data = orNA (priceAt data 0)"

definition trendOf :: "ComedPriceData list \<Rightarrow> trend" where
  \<comment> \<open>the current against the previous reading of the 5-minute feed\<close>
  "trendOf fiveMinData = calculateTrend (priceAt fiveMinData 1) (currentPrice fiveMinData)"

definition pricingSVG :: "ComedPriceData list \<Rightarrow> ComedPriceData list \<Rightarrow> jsstring" where
  "pricingSVG fiveMinData hourlyData =
     generatePricingSVG (formatPrice (currentPrice fiveMinData))
       (formatPrice (currentPrice hourlyData)) (currentPrice fiveMinData)
       (trendOf fiveMinData)"

definition settings :: "int \<Rightarrow> ComedPriceData list \<Rightarrow> ComedPriceData list \<Rightarrow> Settings" where
  \<comment> \<open>\<open>now\<close> is \<open>Date.now()\<close>\<close>
  "settings now fiveMinData hourlyData =
     \<lparr>fiveMinPrice = currentPrice fiveMinData,
      hourlyPrice = currentPrice hourlyData,
      fiveMinFormatted = formatPrice (currentPrice fiveMinData),
      hourlyFormatted = formatPrice (currentPrice hourlyData),
      trend = trendOf fiveMinData,
      lastUpdate = now\<rparr>"

definition display :: "int \<Rightarrow> ComedPriceData list \<Rightarrow> ComedPriceData list \<Rightarrow> event list" where
  \<comment> \<open>the \<open>try\<close> block from the two parsed feeds on; a URIError of the encoding is
      caught like any other exception\<close>
  "display now fiveMinData hourlyData =
     (case dataURI (pricingSVG fiveMinData hourlyData) of
        None \<Rightarrow> onError
      | Some uri \<Rightarrow>
          [SetImage uri,
           SetTitle [],
           SetSettings (settings now fiveMinData hourlyData),
           SetState (stateOf (currentPrice fiveMinData))])"

definition updatePricing :: "int \<Rightarrow> Response option \<Rightarrow> Response option \<Rightarrow> event list" where
  "updatePricing now fiveMinResponse hourlyResponse =
     (case (fiveMinResponse, hourlyResponse) of
        (Some r5, Some rh) \<Rightarrow>
          if \<not> ok r5 \<or> \<not> ok rh then onError
          else (case (json r5, json rh) of
                  (Some fiveMinData, Some hourlyData) \<Rightarrow> display now fiveMinData hourlyData
                | _ \<Rightarrow> onError)
      | _ \<Rightarrow> onError)"

section \<open>Reading an image\<close>

text \<open>
  A property of an image is read off its text: a text occurs in it (\<open>sublist\<close>), or
  the \<open>fill\<close> attribute of its first \<open><text\<close> element has a value.
\<close>

fun after :: "jsstring \<Rightarrow> jsstring \<Rightarrow> jsstring" where
  \<comment> \<open>what follows the first occurrence of \<open>pat\<close>; nothing when there is none\<close>
  "after pat [] = []"
| "after pat (c # cs) =
     (if prefix pat (c # cs) then drop (length pat) (c # cs) else after pat cs)"

definition primaryFill :: "jsstring \<Rightarrow> jsstring" where
  \<comment> \<open>the seven code units of the \<open>fill\<close> colour of the first \<open><text\<close> element\<close>
  \<open>primaryFill svg = take 7 (after (str ''fill="'') (after (str ''<text'') svg))\<close>

definition glyphElement :: "jsstring \<Rightarrow> codeunit \<Rightarrow> jsstring" where
  \<comment> \<open>the element that shows a glyph in a colour\<close>
  \<open>glyphElement colour glyph =
     str ''<text x="60" y="28" text-anchor="middle" fill="'' @ colour
       @ str ''" font-family="Arial, sans-serif" font-size="14">'' @ [glyph]
       @ str ''</text>''\<close>

definition latin1 :: "jsstring \<Rightarrow> bool" where
  "latin1 s = (\<forall>c \<in> set s. c < 0x100)"

definition noSurrogates :: "jsstring \<Rightarrow> bool" where
  "noSurrogates s = (\<forall>c \<in> set s. \<not> leadSurrogate c \<and> \<not> trailSurrogate c)"

section \<open>Evaluation\<close>

lemma floor_rat_numeral_div [simp]:
  "\<lfloor>numeral a / numeral b :: rat\<rfloor> = numeral a div numeral b"
  using floor_divide_of_int_eq [of "numeral a" "numeral b", where ?'a = rat] by simp

lemma floor_rat_neg_numeral_div [simp]:
  "\<lfloor>- (numeral a / numeral b) :: rat\<rfloor> = - numeral a div numeral b"
  using floor_divide_of_int_eq [of "- numeral a" "numeral b", where ?'a = rat] by simp

lemma ceiling_rat_numeral_div [simp]:
  "\<lceil>numeral a / numeral b :: rat\<rceil> = - (- numeral a div numeral b)"
  by (simp add: ceiling_def)

lemma bits_0: "bits 0 = 0"
  by (simp add: bits.simps)

lemma bits_pos: "0 < n \<Longrightarrow> bits n = Suc (bits (n div 2))"
  by (subst bits.simps) simp

lemma decimal_digit: "n < 10 \<Longrightarrow> decimal n = [of_nat (48 + n)]"
  by (subst decimal.simps) simp

lemma decimal_more:
  "10 \<le> n \<Longrightarrow> decimal n = decimal (n div 10) @ [of_nat (48 + n mod 10)]"
  by (subst decimal.simps) simp

lemmas num_eval =
  round64_def roundToUnit_def overflow_def withSign_def floorLog2_def pow2_def pow10_def
  roundHalfEven_def tieToEven_def bits_0 bits_pos divideBy_def isNaN_def ge_def gt_def

lemmas parse_eval =
  parseFloat_def decimalLiteral_def unsignedLiteral_def afterInteger_def decimalValue_def
  str_def isWhiteSpace_def isDigit_def digitsValue_def signedInteger_def signedDigits_def
  exponentPart_def

lemmas fixed_eval =
  toFixed_def fixedDigits_def padded_def pointed_def decimal_digit decimal_more

lemma parseFloat_3_25: "parseFloat (str ''3.25'') = Fin (13 / 4)"
  by (simp add: num_eval parse_eval)

section \<open>The rounding of a number\<close>

text \<open>
  The exponent that \<open>round64\<close> takes is the binary exponent of its argument, and the
  value it gives lies within half a unit in the last place of the argument.
\<close>

lemma pow2_pos: "0 < pow2 e"
  by (simp add: pow2_def)

lemma bits_bounds: "0 < n \<Longrightarrow> 2 ^ (bits n - 1) \<le> n \<and> n < 2 ^ bits n"
proof (induction n rule: bits.induct)
  case (1 n)
  show ?case
  proof (cases "n div 2 = 0")
    case True
    with 1(2) have "n = 1"
      by (simp add: div_eq_0_iff)
    then show ?thesis
      by (simp add: bits_pos bits_0)
  next
    case False
    then have half: "0 < n div 2"
      by simp
    with 1 have ih: "2 ^ (bits (n div 2) - 1) \<le> n div 2" "n div 2 < 2 ^ bits (n div 2)"
      by simp_all
    have pos: "0 < bits (n div 2)"
      using half by (simp add: bits_pos)
    have eq: "bits n = Suc (bits (n div 2))"
      using 1(2) by (simp add: bits_pos)
    have "(2::nat) ^ bits (n div 2) = 2 * 2 ^ (bits (n div 2) - 1)"
      using pos by (cases "bits (n div 2)") simp_all
    then have "2 ^ bits (n div 2) \<le> n"
      using ih(1) by linarith
    moreover have "n < 2 * 2 ^ bits (n div 2)"
      using ih(2) by linarith
    ultimately show ?thesis
      by (simp add: eq)
  qed
qed

lemma floorLog2_bounds:
  assumes "0 < a"
  shows "pow2 (floorLog2 a) \<le> a \<and> a < pow2 (floorLog2 a + 1)"
proof (cases "1 \<le> a")
  case True
  define n where "n = nat \<lfloor>a\<rfloor>"
  have n: "0 < n" "rat_of_nat n \<le> a" "a < rat_of_nat n + 1"
    using True unfolding n_def by simp_all linarith+
  from bits_bounds [OF n(1)] have b: "2 ^ (bits n - 1) \<le> n" "n < 2 ^ bits n"
    by simp_all
  have pos: "0 < bits n"
    using n(1) by (simp add: bits_pos)
  have e: "floorLog2 a = int (bits n) - 1"
    using True by (simp add: floorLog2_def n_def)
  have p1: "pow2 (floorLog2 a) = 2 ^ (bits n - 1)"
    using pos by (simp add: e pow2_def nat_diff_distrib')
  have p2: "pow2 (floorLog2 a + 1) = 2 ^ bits n"
    by (simp add: e pow2_def)
  have lo: "(2::rat) ^ (bits n - 1) \<le> rat_of_nat n"
  proof -
    have "rat_of_nat (2 ^ (bits n - 1)) \<le> rat_of_nat n"
      using b(1) by (simp only: of_nat_le_iff)
    then show ?thesis
      by simp
  qed
  have hi: "rat_of_nat n + 1 \<le> 2 ^ bits n"
  proof -
    have "Suc n \<le> 2 ^ bits n"
      using b(2) by simp
    then have "rat_of_nat (Suc n) \<le> rat_of_nat (2 ^ bits n)"
      by (simp only: of_nat_le_iff)
    then show ?thesis
      by simp
  qed
  have "pow2 (floorLog2 a) \<le> a"
    unfolding p1 using lo n(2) by linarith
  moreover have "a < pow2 (floorLog2 a + 1)"
    unfolding p2 using hi n(3) by linarith
  ultimately show ?thesis
    by simp
next
  case False
  define c where "c = \<lceil>1 / a\<rceil>"
  define m where "m = nat (c - 1)"
  have inv: "1 < 1 / a"
    using False assms by simp
  have c: "rat_of_int c - 1 < 1 / a" "1 / a \<le> rat_of_int c"
    unfolding c_def by linarith+
  have "2 \<le> c"
    using inv c(2) by linarith
  then have m: "0 < m" "int m = c - 1"
    by (simp_all add: m_def)
  from bits_bounds [OF m(1)] have b: "2 ^ (bits m - 1) \<le> m" "m < 2 ^ bits m"
    by simp_all
  have pos: "0 < bits m"
    using m(1) by (simp add: bits_pos)
  have e: "floorLog2 a = - int (bits m)"
    using False by (simp add: floorLog2_def m_def c_def)
  have p1: "pow2 (floorLog2 a) = 1 / 2 ^ bits m"
    using pos by (simp add: e pow2_def)
  have p2: "pow2 (floorLog2 a + 1) = 1 / 2 ^ (bits m - 1)"
    using pos by (auto simp: e pow2_def nat_diff_distrib')
  have "rat_of_int c \<le> 2 ^ bits m"
  proof -
    have "int m < int (2 ^ bits m)"
      using b(2) by (simp only: of_nat_less_iff)
    then have "c \<le> 2 ^ bits m"
      using m(2) by simp
    then have "rat_of_int c \<le> rat_of_int (2 ^ bits m)"
      by (simp only: of_int_le_iff)
    then show ?thesis
      by simp
  qed
  then have upper: "1 / a \<le> 2 ^ bits m"
    using c(2) by linarith
  have "(2::rat) ^ (bits m - 1) \<le> rat_of_int c - 1"
  proof -
    have "int (2 ^ (bits m - 1)) \<le> c - 1"
      using b(1) m(2) by (metis of_nat_le_iff)
    then have "rat_of_int (int (2 ^ (bits m - 1))) \<le> rat_of_int (c - 1)"
      by (simp only: of_int_le_iff)
    then show ?thesis
      by simp
  qed
  then have lower: "2 ^ (bits m - 1) < 1 / a"
    using c(1) by linarith
  have "1 / 2 ^ bits m \<le> a"
    using upper assms by (simp add: field_simps)
  moreover have "a < 1 / 2 ^ (bits m - 1)"
    using lower assms by (simp add: field_simps)
  ultimately show ?thesis
    by (simp add: p1 p2)
qed


lemma roundHalfEven_near: "\<bar>rat_of_int (roundHalfEven q) - q\<bar> \<le> 1 / 2"
proof -
  have "rat_of_int \<lfloor>q\<rfloor> \<le> q" "q < rat_of_int \<lfloor>q\<rfloor> + 1"
    by linarith+
  then show ?thesis
    by (auto simp: roundHalfEven_def tieToEven_def abs_le_iff)
qed

lemma round64_near:
  assumes "round64 q = Fin v"
  shows "\<bar>v - q\<bar> \<le> pow2 (max (floorLog2 \<bar>q\<bar>) (- 1022) - 52) / 2"
proof (cases "q = 0")
  case True
  then show ?thesis
    using assms pow2_pos [of "max (floorLog2 \<bar>q\<bar>) (- 1022) - 52"] by (simp add: round64_def)
next
  case False
  define u where "u = pow2 (max (floorLog2 \<bar>q\<bar>) (- 1022) - 52)"
  define m where "m = roundHalfEven (\<bar>q\<bar> / u)"
  have u: "0 < u"
    unfolding u_def by (rule pow2_pos)
  have v: "v = (if q < 0 then - (rat_of_int m * u) else rat_of_int m * u)"
    using assms False
    by (simp add: round64_def roundToUnit_def overflow_def withSign_def u_def m_def
        split: if_splits)
  have "\<bar>rat_of_int m - \<bar>q\<bar> / u\<bar> \<le> 1 / 2"
    unfolding m_def by (rule roundHalfEven_near)
  then have "\<bar>rat_of_int m - \<bar>q\<bar> / u\<bar> * u \<le> 1 / 2 * u"
    using u by (simp only: mult_le_cancel_right_pos)
  moreover have "\<bar>rat_of_int m - \<bar>q\<bar> / u\<bar> * u = \<bar>rat_of_int m * u - \<bar>q\<bar>\<bar>"
  proof -
    have "(rat_of_int m - \<bar>q\<bar> / u) * u = rat_of_int m * u - \<bar>q\<bar>"
      using u by (simp add: field_simps)
    moreover have "\<bar>rat_of_int m - \<bar>q\<bar> / u\<bar> * u = \<bar>(rat_of_int m - \<bar>q\<bar> / u) * u\<bar>"
      using u by (simp add: abs_mult_pos)
    ultimately show ?thesis
      by simp
  qed
  ultimately have near: "\<bar>rat_of_int m * u - \<bar>q\<bar>\<bar> \<le> u / 2"
    by simp
  have "\<bar>v - q\<bar> = \<bar>rat_of_int m * u - \<bar>q\<bar>\<bar>"
  proof (cases "q < 0")
    case True
    then have "v - q = - (rat_of_int m * u - \<bar>q\<bar>)"
      by (simp add: v)
    then show ?thesis
      by (simp only: abs_minus_cancel)
  next
    case False
    then show ?thesis
      by (simp add: v)
  qed
  with near show ?thesis
    unfolding u_def by simp
qed

section \<open>The code units of a formatted price\<close>

lemma latin1_Nil [simp]: "latin1 []"
  by (simp add: latin1_def)

lemma latin1_append [simp]: "latin1 (xs @ ys) \<longleftrightarrow> latin1 xs \<and> latin1 ys"
  by (auto simp: latin1_def)

lemma of_char_latin1: "(of_char c :: codeunit) < 0x100"
proof -
  have small: "(of_char c :: nat) < 256"
    by (rule nat_of_char_less_256)
  then have "(of_char c :: nat) mod 65536 = of_char c"
    by (intro mod_less) linarith
  with small have "unat (of_nat (of_char c) :: codeunit) < 256"
    unfolding unat_of_nat by simp
  then show ?thesis
    by (simp add: word_less_nat_alt of_nat_of_char)
qed

lemma latin1_str [simp]: "latin1 (str s)"
  by (simp add: latin1_def str_def of_char_latin1)

lemma digit_latin1: "d < 10 \<Longrightarrow> (of_nat (48 + d) :: codeunit) < 0x100"
  unfolding word_less_nat_alt unat_of_nat by simp

lemma latin1_decimal [simp]: "latin1 (decimal n)"
proof (induction n rule: decimal.induct)
  case (1 n)
  show ?case
  proof (cases "n < 10")
    case True
    then show ?thesis
      using digit_latin1 [of n] by (simp add: decimal_digit latin1_def del: of_nat_add)
  next
    case False
    then have "latin1 (decimal (n div 10))"
      using 1 by simp
    moreover have "latin1 [of_nat (48 + n mod 10)]"
      using digit_latin1 [of "n mod 10"] by (simp add: latin1_def del: of_nat_add)
    ultimately show ?thesis
      using False by (simp add: decimal_more)
  qed
qed

lemma latin1_take: "latin1 s \<Longrightarrow> latin1 (take n s)"
  by (auto simp: latin1_def dest: in_set_takeD)

lemma latin1_drop: "latin1 s \<Longrightarrow> latin1 (drop n s)"
  by (auto simp: latin1_def dest: in_set_dropD)

lemma latin1_scientific: "latin1 ds \<Longrightarrow> latin1 (scientific ds e)"
  by (simp add: scientific_def latin1_take latin1_drop)

lemma latin1_toStringExp [simp]: "latin1 (toStringExp x)"
  by (simp add: toStringExp_def normalised_def latin1_scientific split: prod.split)

lemma latin1_fixedDigits [simp]: "latin1 (fixedDigits a f)"
proof -
  have "latin1 (padded m f)" if "latin1 m" for m
    using that by (simp add: padded_def) (simp add: latin1_def)
  then show ?thesis
    by (simp add: fixedDigits_def pointed_def latin1_take latin1_drop)
qed

lemma latin1_toFixed [simp]: "latin1 (toFixed x f)"
  by (cases x) (simp_all add: toFixed_def)

lemma latin1_formatPrice [simp]: "latin1 (formatPrice s)"
  by (simp add: formatPrice_def Let_def) (simp add: latin1_def centSign_def)

section \<open>The two images\<close>

lemma str_Cons: "str (c # cs) = of_char c # str cs"
  by (simp add: str_def)

lemma str_Nil [simp]: "str [] = []"
  by (simp add: str_def)

lemma str_eq_Nil [simp]: "str s = [] \<longleftrightarrow> s = []"
  by (simp add: str_def)

lemma trim_leading:
  assumes "s \<noteq> []" "isWhiteSpace w" "\<not> isWhiteSpace (hd s)" "\<not> isWhiteSpace (last s)"
  shows "trim (w # s) = s"
proof -
  have "dropWhile isWhiteSpace (w # s) = s"
    using assms by (cases s) simp_all
  moreover have "dropWhile isWhiteSpace (rev s) = rev s"
    using assms by (cases "rev s") (simp_all add: last_rev [symmetric] hd_rev)
  ultimately show ?thesis
    by (simp add: trim_def)
qed

lemma trim_template:
  assumes "s = 0x0A # tl s" "tl s \<noteq> []" "hd (tl s) = 0x3C" "last s = 0x3E"
  shows "trim s = tl s"
proof -
  have "isWhiteSpace 0x0A" "\<not> isWhiteSpace 0x3C" "\<not> isWhiteSpace 0x3E"
    by (simp_all add: isWhiteSpace_def)
  then show ?thesis
    using assms by (metis trim_leading last_tl)
qed

lemma generatePricingSVG_tl:
  "generatePricingSVG a b r t = tl (pricingTemplate a b r t)"
  unfolding generatePricingSVG_def
proof (rule trim_template)
  show "hd (tl (pricingTemplate a b r t)) = 0x3C"
    by (simp add: pricingTemplate_def nl_def str_Cons)
  show "last (pricingTemplate a b r t) = 0x3E"
    by (simp add: pricingTemplate_def) (simp add: str_def)
  show "pricingTemplate a b r t = 0x0A # tl (pricingTemplate a b r t)"
    by (simp add: pricingTemplate_def nl_def)
  show "tl (pricingTemplate a b r t) \<noteq> []"
    by (simp add: pricingTemplate_def nl_def)
qed


lemma noSurrogates_Nil [simp]: "noSurrogates []"
  by (simp add: noSurrogates_def)

lemma noSurrogates_space [simp]: "noSurrogates nl" "noSurrogates tab"
  by (simp_all add: nl_def tab_def noSurrogates_def leadSurrogate_def trailSurrogate_def)

lemma noSurrogates_append [simp]:
  "noSurrogates (xs @ ys) \<longleftrightarrow> noSurrogates xs \<and> noSurrogates ys"
  by (auto simp: noSurrogates_def)

lemma latin1_noSurrogates: "latin1 s \<Longrightarrow> noSurrogates s"
proof -
  have "\<not> leadSurrogate c \<and> \<not> trailSurrogate c" if "c < 0x100" for c
    using that
    by (simp add: leadSurrogate_def trailSurrogate_def word_less_nat_alt word_le_nat_alt)
  then show "latin1 s \<Longrightarrow> noSurrogates s"
    by (simp add: latin1_def noSurrogates_def)
qed

lemma noSurrogates_str [simp]: "noSurrogates (str s)"
  by (simp add: latin1_noSurrogates)

lemma noSurrogates_tl: "noSurrogates s \<Longrightarrow> noSurrogates (tl s)"
  by (cases s) (simp_all add: noSurrogates_def)

lemma noSurrogates_trendText [simp]: "noSurrogates (trendText t)"
proof -
  have "noSurrogates (trendSymbol t)"
    by (simp add: trendSymbol_def noSurrogates_def leadSurrogate_def trailSurrogate_def
        upTriangle_def downTriangle_def)
  then show ?thesis
    by (simp add: trendText_def trendColor_def)
qed

lemma noSurrogates_generatePricingSVG:
  "latin1 a \<Longrightarrow> latin1 b \<Longrightarrow> noSurrogates (generatePricingSVG a b r t)"
  unfolding generatePricingSVG_tl
  by (rule noSurrogates_tl)
    (simp add: pricingTemplate_def primaryColor_def backgroundColor_def secondaryColor_def
      latin1_noSurrogates)


lemma noSurrogates_encodes:
  "noSurrogates s \<Longrightarrow> \<exists>e. encodeURIComponent s = Some e"
proof (induction s rule: encodeURIComponent.induct)
  case 1
  then show ?case by simp
next
  case (2 c cs)
  then show ?case
    by (auto simp: noSurrogates_def)
qed

lemma dataURI_pricingSVG: "\<exists>uri. dataURI (pricingSVG fiveMinData hourlyData) = Some uri"
  using noSurrogates_encodes [OF noSurrogates_generatePricingSVG]
  by (fastforce simp: dataURI_def pricingSVG_def)



lemma display_events:
  "\<exists>uri. dataURI (pricingSVG fiveMinData hourlyData) = Some uri
     \<and> display now fiveMinData hourlyData =
         [SetImage uri, SetTitle [], SetSettings (settings now fiveMinData hourlyData),
          SetState (stateOf (currentPrice fiveMinData))]"
  using dataURI_pricingSVG [of fiveMinData hourlyData] by (auto simp: display_def)

section \<open>formatPrice\<close>

text \<open>
  C1.  The claim: an input whose value in dollars is below 0.1 is shown in cents with
  two decimals, so that \<open>"3.25"\<close> gives \<open>"3.25\<cent>"\<close>.  \<open>formatPrice\<close> has no branch
  for such values: below one dollar it always writes one decimal, and \<open>"3.25"\<close> gives
  \<open>"3.3\<cent>"\<close>.
\<close>

theorem formatPrice_low_price_one_decimal:
  "formatPrice (str ''3.25'') = str ''3.3'' @ [centSign]
   \<and> formatPrice (str ''3.25'') \<noteq> str ''3.25'' @ [centSign]"
proof -
  have "formatPrice (str ''3.25'') = str ''3.3'' @ [centSign]"
    by (simp add: formatPrice_def parseFloat_3_25 num_eval fixed_eval) (simp add: str_def)
  then show ?thesis
    by (simp add: str_def)
qed

section \<open>calculateTrend\<close>

lemma lt_irrefl [simp]: "\<not> lt a a"
  by (cases a) simp_all

lemma lt_asym: "lt a b \<Longrightarrow> \<not> lt b a"
  by (cases a; cases b) simp_all

lemma lt_total: "a \<noteq> NaN \<Longrightarrow> b \<noteq> NaN \<Longrightarrow> lt a b \<or> a = b \<or> lt b a"
  by (cases a; cases b) auto

lemma parseFloat_NA: "parseFloat (str ''N/A'') = NaN"
  by (simp add: num_eval parse_eval)

lemma parseFloat_empty: "parseFloat [] = NaN"
  by (simp add: num_eval parse_eval)

lemma parseFloat_5_0: "parseFloat (str ''5.0'') = Fin 5"
  by (simp add: num_eval parse_eval)

lemma parseFloat_5_5: "parseFloat (str ''5.5'') = Fin (11 / 2)"
  by (simp add: num_eval parse_eval)

lemma parseFloat_invalid: "parseFloat (str ''invalid'') = NaN"
  by (simp add: num_eval parse_eval)

text \<open>
  C3.  \<open>calculateTrend\<close> is neutral when the previous price is absent, empty or
  \<open>"N/A"\<close>, when the current price is \<open>"N/A"\<close>, and when \<open>parseFloat\<close> gives NaN for
  one of them; otherwise it is up exactly when the current number is greater than the
  previous one, down exactly when it is less, and neutral exactly when the two are
  equal.  No operation of the function can throw: the model has no error result.
\<close>

theorem calculateTrend_cases:
  "calculateTrend None current = Neutral
   \<and> (p = [] \<or> p = str ''N/A'' \<or> current = str ''N/A''
        \<or> isNaN (parseFloat p) \<or> isNaN (parseFloat current)
       \<longrightarrow> calculateTrend (Some p) current = Neutral)
   \<and> (\<not> (p = [] \<or> p = str ''N/A'' \<or> current = str ''N/A''
           \<or> isNaN (parseFloat p) \<or> isNaN (parseFloat current))
       \<longrightarrow> (calculateTrend (Some p) current = Up
              \<longleftrightarrow> gt (parseFloat current) (parseFloat p))
         \<and> (calculateTrend (Some p) current = Down
              \<longleftrightarrow> lt (parseFloat current) (parseFloat p))
         \<and> (calculateTrend (Some p) current = Neutral
              \<longleftrightarrow> parseFloat current = parseFloat p))"
proof (intro conjI impI)
  show "calculateTrend None current = Neutral"
    by simp
next
  assume "p = [] \<or> p = str ''N/A'' \<or> current = str ''N/A''
        \<or> isNaN (parseFloat p) \<or> isNaN (parseFloat current)"
  then show "calculateTrend (Some p) current = Neutral"
    by (auto simp: compareTrend_def)
next
  assume ok: "\<not> (p = [] \<or> p = str ''N/A'' \<or> current = str ''N/A''
        \<or> isNaN (parseFloat p) \<or> isNaN (parseFloat current))"
  then have eq: "calculateTrend (Some p) current
      = (if gt (parseFloat current) (parseFloat p) then Up
         else if lt (parseFloat current) (parseFloat p) then Down else Neutral)"
    by (simp add: compareTrend_def)
  from ok have nn: "parseFloat p \<noteq> NaN" "parseFloat current \<noteq> NaN"
    by (simp_all add: isNaN_def)
  show "calculateTrend (Some p) current = Up \<longleftrightarrow> gt (parseFloat current) (parseFloat p)"
    unfolding eq by simp
  show "calculateTrend (Some p) current = Down \<longleftrightarrow> lt (parseFloat current) (parseFloat p)"
    unfolding eq using lt_asym [of "parseFloat current" "parseFloat p"]
    by (auto simp: gt_def)
  show "calculateTrend (Some p) current = Neutral \<longleftrightarrow> parseFloat current = parseFloat p"
    unfolding eq using lt_total [OF nn] by (auto simp: gt_def)
qed

theorem calculateTrend_cases_witness:
  "calculateTrend (Some (str ''invalid'')) (str ''5.0'') = Neutral
   \<and> calculateTrend (Some (str ''5.0'')) (str ''5.5'') = Up
   \<and> calculateTrend (Some (str ''5.5'')) (str ''5.0'') = Down
   \<and> calculateTrend (Some (str ''5.0'')) (str ''5.0'') = Neutral"
  using calculateTrend_cases [of "str ''5.0''" "str ''invalid''"]
    calculateTrend_cases [of "str ''5.5''" "str ''5.0''"]
    calculateTrend_cases [of "str ''5.0''" "str ''5.5''"]
    calculateTrend_cases [of "str ''5.0''" "str ''5.0''"]
  by (simp add: parseFloat_5_0 parseFloat_5_5 parseFloat_invalid isNaN_def gt_def)
    (simp add: str_def)

section \<open>The state of the key\<close>

lemma parseFloat_10_0: "parseFloat (str ''10.0'') = Fin 10"
  by (simp add: num_eval parse_eval)

lemma parseFloat_15_7: "parseFloat (str ''15.7'') = Fin (4419157134357299 / 281474976710656)"
  by (simp add: num_eval parse_eval)


lemma parseFloat_minus_5_3:
  "parseFloat (str ''-5.3'') = Fin (- (5967269506265907 / 1125899906842624))"
  by (simp add: num_eval parse_eval)

text \<open>
  C4.  The state that a tick sets is 1 (high) exactly when the number read from the
  current 5-minute price is greater than 10, and 0 (normal) otherwise: at exactly 10
  and when the price does not parse (NaN compares false) it is 0.  A tick whose two
  feeds arrive ends with \<open>setState\<close> of that index.
\<close>

theorem state_threshold:
  "(stateOf p = 1 \<longleftrightarrow> gt (parseFloat p) (Fin 10))
   \<and> (stateOf p = 0 \<longleftrightarrow> \<not> gt (parseFloat p) (Fin 10))
   \<and> (parseFloat p = Fin 10 \<longrightarrow> stateOf p = 0)
   \<and> (isNaN (parseFloat p) \<longrightarrow> stateOf p = 0)
   \<and> stateOf (str ''5.5'') = 0 \<and> stateOf (str ''10.0'') = 0 \<and> stateOf (str ''15.7'') = 1
   \<and> (\<exists>uri. updatePricing now (Some \<lparr>ok = True, json = Some fiveMinData\<rparr>)
                 (Some \<lparr>ok = True, json = Some hourlyData\<rparr>)
               = [SetImage uri, SetTitle [], SetSettings (settings now fiveMinData hourlyData),
                  SetState (stateOf (currentPrice fiveMinData))])"
proof -
  have "stateOf (str ''5.5'') = 0" "stateOf (str ''10.0'') = 0" "stateOf (str ''15.7'') = 1"
    by (simp_all add: stateOf_def gt_def parseFloat_5_5 parseFloat_10_0 parseFloat_15_7)
  moreover have "\<exists>uri. updatePricing now (Some \<lparr>ok = True, json = Some fiveMinData\<rparr>)
                 (Some \<lparr>ok = True, json = Some hourlyData\<rparr>)
               = [SetImage uri, SetTitle [], SetSettings (settings now fiveMinData hourlyData),
                  SetState (stateOf (currentPrice fiveMinData))]"
    using display_events [of fiveMinData hourlyData now] by (auto simp: updatePricing_def)
  ultimately show ?thesis
    by (auto simp: stateOf_def gt_def isNaN_def)
qed

theorem state_threshold_witness:
  "parseFloat (str ''10.0'') = Fin 10 \<and> stateOf (str ''10.0'') = 0
   \<and> isNaN (parseFloat (str ''invalid'')) \<and> stateOf (str ''invalid'') = 0"
  using state_threshold [of "str ''10.0''"] state_threshold [of "str ''invalid''"]
  by (simp add: parseFloat_10_0 parseFloat_invalid isNaN_def)

section \<open>formatPrice on every input\<close>

lemma roundHalfEven_nonneg: "0 \<le> q \<Longrightarrow> 0 \<le> roundHalfEven q"
  by (simp add: roundHalfEven_def tieToEven_def)

lemma round64_negative:
  assumes "q < 0"
  shows "round64 q = NegInfinity \<or> (\<exists>v\<le>0. round64 q = Fin v)"
proof -
  define u where "u = pow2 (max (floorLog2 \<bar>q\<bar>) (- 1022) - 52)"
  have "0 \<le> rat_of_int (roundHalfEven (\<bar>q\<bar> / u)) * u"
    using pow2_pos [of "max (floorLog2 \<bar>q\<bar>) (- 1022) - 52"]
    by (simp add: u_def roundHalfEven_nonneg)
  then show ?thesis
    using assms by (simp add: round64_def roundToUnit_def overflow_def withSign_def u_def)
qed

lemma divide_negative_below_one:
  "lt x (Fin 0) \<Longrightarrow> 0 < d \<Longrightarrow> \<not> ge (divideBy x d) (Fin 1)"
proof (cases x)
  case (Fin c)
  assume "lt x (Fin 0)" "0 < d"
  then have "c / d < 0"
    using Fin by (simp add: divide_neg_pos)
  from round64_negative [OF this] show ?thesis
    using Fin by (auto simp: divideBy_def ge_def)
qed (simp_all add: divideBy_def ge_def)

lemma toFixed_negative: "lt x (Fin 0) \<Longrightarrow> \<exists>rest. toFixed x f = 0x2D # rest"
  by (cases x) (simp_all add: toFixed_def str_def)

text \<open>
  C6.  \<open>formatPrice\<close> gives \<open>"N/A"\<close> for \<open>"N/A"\<close> and for every input that
  \<open>parseFloat\<close> reads as NaN (the empty string and \<open>"invalid"\<close> among them), and a text
  that starts with a minus sign for every input read as a number below zero.  Nothing
  in the function can throw (\<open>parseFloat\<close> and \<open>toFixed\<close> with 1 or 2 digits are
  defined on every value), so the model has no error result and is a total function.
\<close>

theorem formatPrice_total:
  "formatPrice (str ''N/A'') = str ''N/A''
   \<and> (isNaN (parseFloat s) \<longrightarrow> formatPrice s = str ''N/A'')
   \<and> (lt (parseFloat s) (Fin 0) \<longrightarrow> (\<exists>rest. formatPrice s = 0x2D # rest))
   \<and> formatPrice [] = str ''N/A''
   \<and> formatPrice (str ''invalid'') = str ''N/A''
   \<and> formatPrice (str ''-5.3'') = str ''-5.3'' @ [centSign]"
proof (intro conjI impI)
  show "formatPrice (str ''N/A'') = str ''N/A''"
    by (simp add: formatPrice_def)
  show "formatPrice s = str ''N/A''" if "isNaN (parseFloat s)"
    using that by (simp add: formatPrice_def)
  show "\<exists>rest. formatPrice s = 0x2D # rest" if neg: "lt (parseFloat s) (Fin 0)"
  proof -
    have "s \<noteq> str ''N/A''" "\<not> isNaN (parseFloat s)"
      using neg by (auto simp: parseFloat_NA isNaN_def)
    moreover have "\<not> ge (divideBy (parseFloat s) 100) (Fin 1)"
      using neg by (simp add: divide_negative_below_one)
    ultimately have "formatPrice s = toFixed (parseFloat s) 1 @ [centSign]"
      by (simp add: formatPrice_def)
    with toFixed_negative [OF neg, of 1] show ?thesis
      by auto
  qed
  show "formatPrice [] = str ''N/A''"
    by (simp add: formatPrice_def parseFloat_empty isNaN_def)
  show "formatPrice (str ''invalid'') = str ''N/A''"
    by (simp add: formatPrice_def parseFloat_invalid isNaN_def)
  show "formatPrice (str ''-5.3'') = str ''-5.3'' @ [centSign]"
    by (simp add: formatPrice_def parseFloat_minus_5_3 num_eval fixed_eval) (simp add: str_def)
qed

theorem formatPrice_total_witness:
  "isNaN (parseFloat (str ''invalid'')) \<and> formatPrice (str ''invalid'') = str ''N/A''
   \<and> lt (parseFloat (str ''-5.3'')) (Fin 0)
   \<and> (\<exists>rest. formatPrice (str ''-5.3'') = 0x2D # rest)"
proof -
  have "isNaN (parseFloat (str ''invalid''))" "lt (parseFloat (str ''-5.3'')) (Fin 0)"
    by (simp_all add: parseFloat_invalid parseFloat_minus_5_3 isNaN_def)
  then show ?thesis
    using formatPrice_total [of "str ''invalid''"] formatPrice_total [of "str ''-5.3''"]
    by blast
qed

section \<open>formatPrice in dollars and in cents\<close>




lemma length_decimal_digit [simp]: "n < 10 \<Longrightarrow> length (decimal n) = 1"
  by (simp add: decimal_digit)

lemma decimal_not_Nil [simp]: "decimal n \<noteq> []"
  by (subst decimal.simps) simp












section \<open>A tick whose fetch fails\<close>




section \<open>An entry without a price\<close>

text \<open>
  C10.  When the first entry of a feed has an empty price, or none, the current price
  of that feed is \<open>"N/A"\<close>, as for a feed with no entry; the formatted price (of the
  5-minute feed and of the hourly feed) is then \<open>"N/A"\<close> and the trend is neutral.
  The trend is neutral too when the previous entry of the 5-minute feed has an
  empty price, or none.
\<close>

theorem falsy_price_is_NA:
  "(price e = None \<or> price e = Some []
      \<longrightarrow> currentPrice (e # rest) = str ''N/A''
        \<and> currentPrice (e # rest) = currentPrice []
        \<and> formatPrice (currentPrice (e # rest)) = str ''N/A''
        \<and> fiveMinFormatted (settings now (e # rest) hourlyData) = str ''N/A''
        \<and> hourlyFormatted (settings now fiveMinData (e # rest)) = str ''N/A''
        \<and> trendOf (e # rest) = Neutral)
   \<and> (price e = None \<or> price e = Some [] \<longrightarrow> trendOf (e0 # e # rest) = Neutral)"
proof (intro conjI impI)
  assume falsy: "price e = None \<or> price e = Some []"
  then show na: "currentPrice (e # rest) = str ''N/A''"
    by (auto simp: currentPrice_def priceAt_def orNA_def)
  then show "currentPrice (e # rest) = currentPrice []"
    by (simp add: currentPrice_def priceAt_def orNA_def)
  show fmt: "formatPrice (currentPrice (e # rest)) = str ''N/A''"
    by (simp add: na formatPrice_def)
  then show "fiveMinFormatted (settings now (e # rest) hourlyData) = str ''N/A''"
    "hourlyFormatted (settings now fiveMinData (e # rest)) = str ''N/A''"
    by (simp_all add: settings_def)
  show "trendOf (e # rest) = Neutral"
    unfolding trendOf_def na by (cases "priceAt (e # rest) 1") simp_all
  from falsy show "trendOf (e0 # e # rest) = Neutral"
    by (auto simp: trendOf_def priceAt_def)
qed

theorem falsy_price_is_NA_witness:
  "price \<lparr>millisUTC = str ''1640995200000'', price = Some []\<rparr> = Some []
   \<and> currentPrice [\<lparr>millisUTC = str ''1640995200000'', price = Some []\<rparr>] = str ''N/A''
   \<and> formatPrice (currentPrice [\<lparr>millisUTC = str ''1640995200000'', price = Some []\<rparr>])
       = str ''N/A''
   \<and> trendOf [\<lparr>millisUTC = str ''1640995200000'', price = Some []\<rparr>] = Neutral
   \<and> trendOf [\<lparr>millisUTC = str ''1640995200000'', price = Some (str ''8.5'')\<rparr>,
              \<lparr>millisUTC = str ''1640994900000'', price = Some []\<rparr>] = Neutral"
proof -
  have falsy: "price \<lparr>millisUTC = str ''1640995200000'', price = Some []\<rparr> = Some []"
    "price \<lparr>millisUTC = str ''1640994900000'', price = Some []\<rparr> = Some []"
    by simp_all
  from falsy(1)
  have "currentPrice [\<lparr>millisUTC = str ''1640995200000'', price = Some []\<rparr>] = str ''N/A''
    \<and> formatPrice (currentPrice [\<lparr>millisUTC = str ''1640995200000'', price = Some []\<rparr>])
        = str ''N/A''
    \<and> trendOf [\<lparr>millisUTC = str ''1640995200000'', price = Some []\<rparr>] = Neutral"
    using falsy_price_is_NA [of "\<lparr>millisUTC = str ''1640995200000'', price = Some []\<rparr>" "[]"]
    by blast
  moreover from falsy(2)
  have "trendOf [\<lparr>millisUTC = str ''1640995200000'', price = Some (str ''8.5'')\<rparr>,
                 \<lparr>millisUTC = str ''1640994900000'', price = Some []\<rparr>] = Neutral"
    using falsy_price_is_NA
      [of "\<lparr>millisUTC = str ''1640994900000'', price = Some []\<rparr>" "[]" _ _ _
        "\<lparr>millisUTC = str ''1640995200000'', price = Some (str ''8.5'')\<rparr>"]
    by blast
  ultimately show ?thesis
    using falsy(1) by blast
qed

section \<open>The trend glyph\<close>

lemma sublist_here: "sublist xs (xs @ ss)"
  by (rule sublist_append_rightI)

lemma sublist_skip: "sublist xs ys \<Longrightarrow> sublist xs (zs @ ys)"
  by (metis sublist_order.order_trans sublist_append_leftI)

lemma sublist_skip1: "sublist xs ys \<Longrightarrow> sublist xs (z # ys)"
  using sublist_skip [of xs ys "[z]"] by simp

lemma sublist_trendText: "sublist (trendText t) (generatePricingSVG a b r t)"
  unfolding generatePricingSVG_tl pricingTemplate_def nl_def
  apply (simp only: append_Cons append_Nil list.sel)
  apply (rule sublist_here | rule sublist_skip | rule sublist_skip1)+
  done

lemma units_of_pricingSVG:
  assumes "latin1 a" "latin1 b" "c \<in> set (generatePricingSVG a b r t)" "\<not> c < 0x100"
  shows "c \<in> set (trendSymbol t)"
proof -
  have str: "c \<notin> set (str s)" for s
    using latin1_str [of s] assms(4) by (auto simp: latin1_def)
  have "c \<in> set (pricingTemplate a b r t)"
    using assms(3) unfolding generatePricingSVG_tl
    by (rule list.set_sel(2) [rotated]) (simp add: pricingTemplate_def nl_def)
  moreover have "c \<notin> set a" "c \<notin> set b" "c \<notin> set nl" "c \<notin> set tab"
    using assms by (auto simp: latin1_def nl_def tab_def)
  moreover have "c \<notin> set (primaryColor r)"
    by (simp add: primaryColor_def str)
  ultimately have "c \<in> set (trendText t)"
    by (simp add: pricingTemplate_def str backgroundColor_def secondaryColor_def)
  then show ?thesis
    by (simp add: trendText_def trendColor_def str split: if_splits)
qed


lemma trendText_Up: "trendText Up = glyphElement (str ''#ff4444'') upTriangle"
  by (simp add: trendText_def trendColor_def trendSymbol_def glyphElement_def)

lemma trendText_Down: "trendText Down = glyphElement (str ''#44ff44'') downTriangle"
  by (simp add: trendText_def trendColor_def trendSymbol_def glyphElement_def)

lemma glyph_in_element: "g \<in> set (glyphElement colour g)"
  by (simp add: glyphElement_def)

lemma triangles_not_latin1: "\<not> upTriangle < 0x100" "\<not> downTriangle < 0x100"
  "upTriangle \<noteq> downTriangle"
  by (simp_all add: upTriangle_def downTriangle_def)

text \<open>
  C7.  The price texts that \<open>generatePricingSVG\<close> is given are formatted prices.  For
  all of them, for every raw price and every trend: the image holds the up triangle
  exactly when the trend is up, and then in the element filled with \<open>#ff4444\<close>; it
  holds the down triangle exactly when the trend is down, and then in the element filled
  with \<open>#44ff44\<close>; with a neutral trend it holds neither.
\<close>

theorem trend_glyph:
  "(upTriangle \<in> set (generatePricingSVG (formatPrice p) (formatPrice h) raw t) \<longleftrightarrow> t = Up)
   \<and> (sublist (glyphElement (str ''#ff4444'') upTriangle)
         (generatePricingSVG (formatPrice p) (formatPrice h) raw t) \<longleftrightarrow> t = Up)
   \<and> (downTriangle \<in> set (generatePricingSVG (formatPrice p) (formatPrice h) raw t)
        \<longleftrightarrow> t = Down)
   \<and> (sublist (glyphElement (str ''#44ff44'') downTriangle)
         (generatePricingSVG (formatPrice p) (formatPrice h) raw t) \<longleftrightarrow> t = Down)
   \<and> (t = Neutral
        \<longrightarrow> upTriangle \<notin> set (generatePricingSVG (formatPrice p) (formatPrice h) raw t)
          \<and> downTriangle \<notin> set (generatePricingSVG (formatPrice p) (formatPrice h) raw t))"
proof -
  let ?svg = "generatePricingSVG (formatPrice p) (formatPrice h) raw t"
  have only: "c \<in> set (trendSymbol t)" if "c \<in> set ?svg" "\<not> c < 0x100" for c
    using that units_of_pricingSVG [of "formatPrice p" "formatPrice h" c raw t] by simp
  have up_only: "t = Up" if "upTriangle \<in> set ?svg"
    using only [OF that] triangles_not_latin1 by (auto simp: trendSymbol_def split: if_splits)
  have down_only: "t = Down" if "downTriangle \<in> set ?svg"
    using only [OF that] triangles_not_latin1 by (auto simp: trendSymbol_def split: if_splits)
  have up_sub: "sublist (glyphElement (str ''#ff4444'') upTriangle) ?svg" if "t = Up"
    using sublist_trendText [of t "formatPrice p" "formatPrice h" raw] that
    by (simp add: trendText_Up)
  have down_sub: "sublist (glyphElement (str ''#44ff44'') downTriangle) ?svg" if "t = Down"
    using sublist_trendText [of t "formatPrice p" "formatPrice h" raw] that
    by (simp add: trendText_Down)
  have inside: "g \<in> set ?svg" if "sublist (glyphElement colour g) ?svg" for colour g
    using set_mono_sublist [OF that] glyph_in_element [of g colour] by blast
  show ?thesis
    using up_only down_only up_sub down_sub inside by blast
qed

theorem trend_glyph_witness:
  "upTriangle \<notin> set (generatePricingSVG (formatPrice (str ''7.5'')) (formatPrice (str ''7.5''))
                       (str ''7.5'') Neutral)
   \<and> downTriangle \<notin> set (generatePricingSVG (formatPrice (str ''7.5''))
                           (formatPrice (str ''7.5'')) (str ''7.5'') Neutral)"
  using trend_glyph [of "str ''7.5''" "str ''7.5''" "str ''7.5''" Neutral] by simp

section \<open>The colour of the price and the state of the key\<close>

lemma length_primaryColor [simp]: "length (primaryColor r) = 7"
  by (simp add: primaryColor_def str_def)

lemma primaryFill_generatePricingSVG:
  "primaryFill (generatePricingSVG a b r t) = primaryColor r"
  by (simp add: generatePricingSVG_tl primaryFill_def pricingTemplate_def nl_def tab_def str_def
      backgroundColor_def)


lemma parseFloat_8_5: "parseFloat (str ''8.5'') = Fin (17 / 2)"
  by (simp add: num_eval parse_eval)

lemma parseFloat_7_2: "parseFloat (str ''7.2'') = Fin (8106479329266893 / 1125899906842624)"
  by (simp add: num_eval parse_eval)

lemma formatPrice_8_5: "formatPrice (str ''8.5'') = str ''8.5'' @ [centSign]"
  by (simp add: formatPrice_def parseFloat_8_5 num_eval fixed_eval) (simp add: str_def)

lemma scenario_feed:
  "currentPrice [\<lparr>millisUTC = str ''1640995200000'', price = Some (str ''8.5'')\<rparr>,
                 \<lparr>millisUTC = str ''1640994900000'', price = Some (str ''7.2'')\<rparr>] = str ''8.5''"
  "trendOf [\<lparr>millisUTC = str ''1640995200000'', price = Some (str ''8.5'')\<rparr>,
            \<lparr>millisUTC = str ''1640994900000'', price = Some (str ''7.2'')\<rparr>] = Up"
  "stateOf (str ''8.5'') = 0"
proof -
  show "currentPrice [\<lparr>millisUTC = str ''1640995200000'', price = Some (str ''8.5'')\<rparr>,
                 \<lparr>millisUTC = str ''1640994900000'', price = Some (str ''7.2'')\<rparr>] = str ''8.5''"
    by (simp add: currentPrice_def priceAt_def orNA_def)
  have "str ''7.2'' \<noteq> str ''N/A''" "str ''8.5'' \<noteq> str ''N/A''"
    by (simp_all add: str_def)
  then show "trendOf [\<lparr>millisUTC = str ''1640995200000'', price = Some (str ''8.5'')\<rparr>,
            \<lparr>millisUTC = str ''1640994900000'', price = Some (str ''7.2'')\<rparr>] = Up"
    by (simp add: trendOf_def currentPrice_def priceAt_def orNA_def compareTrend_def
        parseFloat_8_5 parseFloat_7_2 isNaN_def gt_def)
  show "stateOf (str ''8.5'') = 0"
    by (simp add: stateOf_def parseFloat_8_5 gt_def)
qed



section \<open>What the hourly feed reaches\<close>

lemma frame_here:
  "\<exists>pre post. \<forall>b. b @ A @ Y = pre @ b @ A @ post"
  by (rule exI [of _ "[]"]) simp

lemma frame_skip:
  "\<exists>pre post. \<forall>b. F b = pre @ b @ A @ post
   \<Longrightarrow> \<exists>pre post. \<forall>b. X @ F b = pre @ b @ A @ post"
proof -
  assume "\<exists>pre post. \<forall>b. F b = pre @ b @ A @ post"
  then obtain pre post where "\<forall>b. F b = pre @ b @ A @ post"
    by blast
  then have "\<forall>b. X @ F b = (X @ pre) @ b @ A @ post"
    by simp
  then show ?thesis
    by blast
qed

lemma frame_skip1:
  "\<exists>pre post. \<forall>b. F b = pre @ b @ A @ post
   \<Longrightarrow> \<exists>pre post. \<forall>b. x # F b = pre @ b @ A @ post"
  using frame_skip [of F A "[x]"] by simp

lemma hourly_frame:
  "\<exists>pre post. \<forall>b. generatePricingSVG a b r t = pre @ b @ str '' avg'' @ post"
  unfolding generatePricingSVG_tl pricingTemplate_def nl_def
  apply (simp only: append_Cons append_Nil list.sel)
  apply (rule frame_here | rule frame_skip | rule frame_skip1)+
  done

text \<open>
  C9.  For a 5-minute feed there are two texts \<open>pre\<close> and \<open>post\<close> such that, whatever
  the hourly feed is, the image of the tick is \<open>pre\<close>, the formatted hourly price,
  \<open>" avg"\<close> and \<open>post\<close>.  Of the settings only \<open>hourlyPrice\<close> and \<open>hourlyFormatted\<close> are
  taken from the hourly feed; the trend, the state and the fill of the 5-minute price
  are those of the 5-minute feed.  So two ticks that differ in the hourly feed only
  agree on trend, state, 5-minute price text and its colour.
\<close>

theorem hourly_feed_only_average:
  "\<exists>pre post. \<forall>hourlyData now. \<exists>uri.
      dataURI (pre @ formatPrice (currentPrice hourlyData) @ str '' avg'' @ post) = Some uri
    \<and> updatePricing now (Some \<lparr>ok = True, json = Some fiveMinData\<rparr>)
          (Some \<lparr>ok = True, json = Some hourlyData\<rparr>)
        = [SetImage uri,
           SetTitle [],
           SetSettings
             \<lparr>fiveMinPrice = currentPrice fiveMinData,
              hourlyPrice = currentPrice hourlyData,
              fiveMinFormatted = formatPrice (currentPrice fiveMinData),
              hourlyFormatted = formatPrice (currentPrice hourlyData),
              trend = trendOf fiveMinData,
              lastUpdate = now\<rparr>,
           SetState (stateOf (currentPrice fiveMinData))]
    \<and> primaryFill (pre @ formatPrice (currentPrice hourlyData) @ str '' avg'' @ post)
        = primaryColor (currentPrice fiveMinData)"
proof -
  obtain pre post where frame:
    "\<And>b. generatePricingSVG (formatPrice (currentPrice fiveMinData)) b
            (currentPrice fiveMinData) (trendOf fiveMinData)
          = pre @ b @ str '' avg'' @ post"
    using hourly_frame by blast
  have "\<exists>uri.
      dataURI (pre @ formatPrice (currentPrice hourlyData) @ str '' avg'' @ post) = Some uri
    \<and> updatePricing now (Some \<lparr>ok = True, json = Some fiveMinData\<rparr>)
          (Some \<lparr>ok = True, json = Some hourlyData\<rparr>)
        = [SetImage uri,
           SetTitle [],
           SetSettings
             \<lparr>fiveMinPrice = currentPrice fiveMinData,
              hourlyPrice = currentPrice hourlyData,
              fiveMinFormatted = formatPrice (currentPrice fiveMinData),
              hourlyFormatted = formatPrice (currentPrice hourlyData),
              trend = trendOf fiveMinData,
              lastUpdate = now\<rparr>,
           SetState (stateOf (currentPrice fiveMinData))]
    \<and> primaryFill (pre @ formatPrice (currentPrice hourlyData) @ str '' avg'' @ post)
        = primaryColor (currentPrice fiveMinData)" for hourlyData now
  proof -
    have svg: "pricingSVG fiveMinData hourlyData
        = pre @ formatPrice (currentPrice hourlyData) @ str '' avg'' @ post"
      by (simp add: pricingSVG_def frame)
    obtain uri where "dataURI (pricingSVG fiveMinData hourlyData) = Some uri"
      and "display now fiveMinData hourlyData
           = [SetImage uri, SetTitle [], SetSettings (settings now fiveMinData hourlyData),
              SetState (stateOf (currentPrice fiveMinData))]"
      using display_events by blast
    moreover have "updatePricing now (Some \<lparr>ok = True, json = Some fiveMinData\<rparr>)
        (Some \<lparr>ok = True, json = Some hourlyData\<rparr>) = display now fiveMinData hourlyData"
      by (simp add: updatePricing_def)
    moreover have "primaryFill (pricingSVG fiveMinData hourlyData)
        = primaryColor (currentPrice fiveMinData)"
      by (simp add: pricingSVG_def primaryFill_generatePricingSVG)
    ultimately show ?thesis
      unfolding svg by (simp add: settings_def)
  qed
  then show ?thesis
    by blast
qed


theorem hourly_feed_only_average_witness:
  "\<exists>pre post. \<forall>hourlyData now. \<exists>uri.
      dataURI (pre @ formatPrice (currentPrice hourlyData) @ str '' avg'' @ post) = Some uri
    \<and> updatePricing now
          (Some \<lparr>ok = True, json = Some
             [\<lparr>millisUTC = str ''1640995200000'', price = Some (str ''8.5'')\<rparr>,
              \<lparr>millisUTC = str ''1640994900000'', price = Some (str ''7.2'')\<rparr>]\<rparr>)
          (Some \<lparr>ok = True, json = Some hourlyData\<rparr>)
        = [SetImage uri,
           SetTitle [],
           SetSettings
             \<lparr>fiveMinPrice = str ''8.5'',
              hourlyPrice = currentPrice hourlyData,
              fiveMinFormatted = str ''8.5'' @ [centSign],
              hourlyFormatted = formatPrice (currentPrice hourlyData),
              trend = Up,
              lastUpdate = now\<rparr>,
           SetState 0]"
  using hourly_feed_only_average
    [of "[\<lparr>millisUTC = str ''1640995200000'', price = Some (str ''8.5'')\<rparr>,
          \<lparr>millisUTC = str ''1640994900000'', price = Some (str ''7.2'')\<rparr>]"]
  unfolding scenario_feed formatPrice_8_5 by blast


end
